theory Spec2Isabelle
  imports Complex_Main "HOL-Library.Log_Nat" "HOL-Library.Signed_Division"
begin

section \<open>Python values used by \<open>dlrover/python/common/node.py\<close>\<close>

text \<open>
  The exceptions the modelled code can raise. \<open>IndexError\<close> comes from
  \<^verbatim>\<open>value.split("=")[1]\<close>, \<open>ValueError\<close> from the builtins \<^verbatim>\<open>int\<close> and
  \<^verbatim>\<open>float\<close> on a string, \<open>OverflowError\<close> from the true division of integers
  (\<open>ZeroDivisionError\<close> completes that operator; the code divides by 1024).
\<close>

datatype py_error = IndexError | ValueError | OverflowError | ZeroDivisionError

text \<open>
  A Python \<^verbatim>\<open>float\<close> is an IEEE binary64 value: a sign and either a finite
  magnitude (a rational that is exactly representable), an infinity, or a NaN.
  The sign is \<open>True\<close> for negative values, so that \<^verbatim>\<open>-0.0\<close> is
  \<open>Fin True 0\<close>.
\<close>

datatype pyfloat = Fin bool rat | Inf bool | NaN

text \<open>
  The attributes \<^verbatim>\<open>cpu\<close> and \<^verbatim>\<open>memory\<close> hold whatever number the caller
  passed: an \<^verbatim>\<open>int\<close> (as in \<^verbatim>\<open>NodeResource(0, 0)\<close>) or a \<^verbatim>\<open>float\<close>.
\<close>

datatype pynum = PyInt int | PyFloat pyfloat

text \<open>
  Python compares an int with a float by their exact mathematical values; a
  comparison with a NaN is false. \<open>num_val\<close> gives \<open>None\<close> for a NaN and
  otherwise the value in the extended rationals, the infinities as \<open>Inl\<close> of
  their sign.
\<close>

fun num_val :: "pynum \<Rightarrow> (bool + rat) option" where
  "num_val (PyInt i) = Some (Inr (of_int i))"
| "num_val (PyFloat (Fin s m)) = Some (Inr (if s then - m else m))"
| "num_val (PyFloat (Inf s)) = Some (Inl s)"
| "num_val (PyFloat NaN) = None"

fun ext_ge :: "bool + rat \<Rightarrow> bool + rat \<Rightarrow> bool" where
  "ext_ge (Inr a) (Inr b) = (a \<ge> b)"
| "ext_ge (Inl s) (Inr b) = (\<not> s)"
| "ext_ge (Inr a) (Inl t) = t"
| "ext_ge (Inl s) (Inl t) = (t \<or> \<not> s)"

definition py_ge :: "pynum \<Rightarrow> pynum \<Rightarrow> bool" where
  "py_ge x y =
     (case (num_val x, num_val y) of
        (Some a, Some b) \<Rightarrow> ext_ge a b
      | _ \<Rightarrow> False)"

definition py_gt :: "pynum \<Rightarrow> pynum \<Rightarrow> bool" where
  "py_gt x y = (py_ge x y \<and> \<not> py_ge y x)"

section \<open>Constants of \<open>dlrover.python.common.constants\<close>\<close>

text \<open>
  Modelled from the spec: the module \<open>dlrover/python/common/constants.py\<close> is
  not among the sources. The status enumeration is the one of the spec's data
  model (INITIAL, PENDING, RUNNING, SUCCEEDED, FAILED, DELETED).
\<close>

datatype NodeStatus = INITIAL | PENDING | RUNNING | SUCCEEDED | FAILED | DELETED

text \<open>
  Modelled from the spec: of the exit reasons only \<open>FATAL_ERROR\<close> is named, by
  the spec and by \<^verbatim>\<open>is_unrecoverable_failure\<close>; every other reason is
  \<open>OTHER_REASON\<close> with its text. The memory ceiling
  \<^verbatim>\<open>NodeResourceLimit.MAX_MEMORY\<close> is a parameter of the functions that read it.
\<close>

datatype NodeExitReason = FATAL_ERROR | OTHER_REASON string

section \<open>The classes\<close>

text \<open>
  \<^verbatim>\<open>NodeResource.__init__(self, cpu, memory, gpu_type=None, gpu_num=0)\<close> stores
  its arguments as they are and sets \<^verbatim>\<open>image\<close> and \<^verbatim>\<open>priority\<close> to \<^verbatim>\<open>""\<close>.
\<close>

record NodeResource =
  cpu :: pynum
  memory :: pynum
  gpu_type :: "string option"
  gpu_num :: int
  image :: string
  priority :: string

definition NodeResource_init ::
  "pynum \<Rightarrow> pynum \<Rightarrow> string option \<Rightarrow> int \<Rightarrow> NodeResource" where
  "NodeResource_init c m t n =
     \<lparr>cpu = c, memory = m, gpu_type = t, gpu_num = n, image = '''', priority = ''''\<rparr>"

text \<open>
  Objects are mutable and held by reference, so a node refers to its two
  resource objects by their addresses in a heap. \<^verbatim>\<open>self.type\<close> and
  \<^verbatim>\<open>self.id\<close> are \<open>node_type\<close> and \<open>node_id\<close> here.
\<close>

type_synonym ref = nat
type_synonym datetime = int

record Node =
  node_type :: string
  node_id :: int
  name :: "string option"
  status :: NodeStatus
  start_time :: "int option"
  task_index :: int
  relaunch_count :: int
  critical :: bool
  max_relaunch_count :: int
  relaunchable :: bool
  service_addr :: "string option"
  create_time :: datetime
  finish_time :: datetime
  is_recovered_oom :: bool
  is_released :: bool
  exit_reason :: "NodeExitReason option"
  config_resource :: ref
  used_resource :: ref

text \<open>
  The heap: the resource objects, the node objects, and the first address not
  yet allocated. Every object created by the code takes the next address.
\<close>

record heap =
  resources :: "ref \<Rightarrow> NodeResource"
  nodes :: "ref \<Rightarrow> Node"
  next_ref :: ref

definition new_NodeResource ::
  "heap \<Rightarrow> pynum \<Rightarrow> pynum \<Rightarrow> string option \<Rightarrow> int \<Rightarrow> heap \<times> ref" where
  "new_NodeResource h c m t n =
     (h\<lparr>resources := (resources h)(next_ref h := NodeResource_init c m t n),
        next_ref := next_ref h + 1\<rparr>, next_ref h)"

text \<open>
  \<^verbatim>\<open>Node.__init__\<close>; \<open>now\<close> is the value of \<^verbatim>\<open>datetime.now()\<close>. The configured
  resource is the object the caller passed (its address), the used resource is a
  new \<^verbatim>\<open>NodeResource(0.0, 0.0)\<close>.
\<close>

definition Node_init ::
  "heap \<Rightarrow> datetime \<Rightarrow> string \<Rightarrow> int \<Rightarrow> ref \<Rightarrow> string option \<Rightarrow> NodeStatus \<Rightarrow>
   int option \<Rightarrow> int option \<Rightarrow> int \<Rightarrow> bool \<Rightarrow> int \<Rightarrow> bool \<Rightarrow> string option \<Rightarrow>
   heap \<times> ref" where
  "Node_init h now ntype nid cfg nm st start tidx rc crit maxrc rl svc =
     (let (h1, used) = new_NodeResource h (PyFloat (Fin False 0)) (PyFloat (Fin False 0)) None 0;
          self = next_ref h1;
          n = \<lparr>node_type = ntype, node_id = nid, name = nm, status = st,
               start_time = start,
               task_index = (case tidx of Some i \<Rightarrow> i | None \<Rightarrow> nid),
               relaunch_count = rc, critical = crit, max_relaunch_count = maxrc,
               relaunchable = rl, service_addr = svc,
               create_time = now, finish_time = now,
               is_recovered_oom = False, is_released = False, exit_reason = None,
               config_resource = cfg, used_resource = used\<rparr>
      in (h1\<lparr>nodes := (nodes h1)(self := n), next_ref := self + 1\<rparr>, self))"





text \<open>
  \<^verbatim>\<open>copy.deepcopy(self)\<close> creates a new node object and a new copy of each
  resource object it refers to; were both attributes the same object, the copy
  would share one new object too (the memo of \<^verbatim>\<open>deepcopy\<close>). Strings, numbers,
  \<^verbatim>\<open>None\<close> and datetimes are immutable and copied as values.
\<close>

definition deepcopy_Node :: "heap \<Rightarrow> ref \<Rightarrow> heap \<times> ref" where
  "deepcopy_Node h self =
     (let n = nodes h self;
          c = next_ref h;
          u = (if used_resource n = config_resource n then c else c + 1);
          new = u + 1
      in (h\<lparr>resources := (resources h)
                (c := resources h (config_resource n), u := resources h (used_resource n)),
            nodes := (nodes h)(new := n\<lparr>config_resource := c, used_resource := u\<rparr>),
            next_ref := new + 1\<rparr>, new))"

definition get_relaunch_node_info :: "heap \<Rightarrow> ref \<Rightarrow> int \<Rightarrow> heap \<times> ref" where
  "get_relaunch_node_info h self new_id =
     (let (h1, new_node) = deepcopy_Node h self
      in (h1\<lparr>nodes := (nodes h1)(new_node := (nodes h1 new_node)
              \<lparr>node_id := new_id, name := None, status := INITIAL, start_time := None,
               is_released := False, relaunchable := True\<rparr>)\<rparr>, new_node))"

text \<open>
  \<^verbatim>\<open>is_unrecoverable_failure\<close>, with \<open>MAX_MEMORY\<close> the value of
  \<^verbatim>\<open>NodeResourceLimit.MAX_MEMORY\<close>. The \<^verbatim>\<open>or\<close> evaluates left to right and
  reads nothing that can raise.
\<close>

definition is_unrecoverable_failure :: "pynum \<Rightarrow> heap \<Rightarrow> ref \<Rightarrow> bool" where
  "is_unrecoverable_failure MAX_MEMORY h self =
     (if relaunch_count (nodes h self) \<ge> max_relaunch_count (nodes h self)
         \<or> exit_reason (nodes h self) = Some FATAL_ERROR
         \<or> py_ge (memory (resources h (used_resource (nodes h self)))) MAX_MEMORY
      then True else False)"




text \<open>
  The addresses in use lie below \<open>next_ref\<close>: a node that exists, with the
  resource objects it refers to.
\<close>

definition allocated :: "heap \<Rightarrow> ref \<Rightarrow> bool" where
  "allocated h self =
     (self < next_ref h \<and> config_resource (nodes h self) < next_ref h
      \<and> used_resource (nodes h self) < next_ref h)"

section \<open>Strings and the builtins \<open>int\<close>, \<open>float\<close> and \<open>/\<close>\<close>

text \<open>
  A \<^verbatim>\<open>str\<close> is a \<open>string\<close> whose characters are the code points below 256.
  \<^verbatim>\<open>str.strip()\<close> removes the characters for which \<^verbatim>\<open>str.isspace\<close> holds;
  \<^verbatim>\<open>int\<close> and \<^verbatim>\<open>float\<close> skip a smaller set around their literal (the code
  points 28 to 31 are not skipped there).
\<close>

definition py_isspace :: "char \<Rightarrow> bool" where
  "py_isspace c = (of_char c \<in> {9, 10, 11, 12, 13, 28, 29, 30, 31, 32, 133, 160 :: nat})"

definition num_isspace :: "char \<Rightarrow> bool" where
  "num_isspace c = (of_char c \<in> {9, 10, 11, 12, 13, 32, 133, 160 :: nat})"

definition strip :: "string \<Rightarrow> string" where
  "strip s = rev (dropWhile py_isspace (rev (dropWhile py_isspace s)))"

definition num_strip :: "string \<Rightarrow> string" where
  "num_strip s = rev (dropWhile num_isspace (rev (dropWhile num_isspace s)))"

text \<open>\<^verbatim>\<open>s.split(sep)\<close> for a separator of one character: never an empty list.\<close>

fun split :: "char \<Rightarrow> string \<Rightarrow> string list" where
  "split sep [] = [[]]"
| "split sep (c # cs) =
     (if c = sep then [] # split sep cs
      else (case split sep cs of w # ws \<Rightarrow> (c # w) # ws | [] \<Rightarrow> [[c]]))"

text \<open>\<^verbatim>\<open>sub in s\<close> on strings.\<close>

fun contains :: "string \<Rightarrow> string \<Rightarrow> bool" where
  "contains sub [] = (sub = [])"
| "contains sub (c # cs) = (take (length sub) (c # cs) = sub \<or> contains sub cs)"

definition is_digit :: "char \<Rightarrow> bool" where
  "is_digit c = (48 \<le> (of_char c :: nat) \<and> (of_char c :: nat) \<le> 57)"

definition digit_val :: "char \<Rightarrow> nat" where
  "digit_val c = of_char c - 48"

fun digits_val :: "nat \<Rightarrow> string \<Rightarrow> nat" where
  "digits_val acc [] = acc"
| "digits_val acc (c # cs) = digits_val (acc * 10 + digit_val c) cs"

text \<open>
  An underscore in a numeric literal stands between two digits: it follows a
  digit, a digit follows it, and it is not the last character. \<open>prev\<close> is the
  character before, the NUL character at the start.
\<close>

fun underscores_ok :: "char \<Rightarrow> string \<Rightarrow> bool" where
  "underscores_ok prev [] = (prev \<noteq> CHR ''_'')"
| "underscores_ok prev (c # cs) =
     ((if c = CHR ''_'' then is_digit prev else prev = CHR ''_'' \<longrightarrow> is_digit c)
      \<and> underscores_ok c cs)"

text \<open>
  \<^verbatim>\<open>int(s)\<close> for a string, base ten: optional white space around, an optional
  sign, then digits with single underscores between them; anything else is a
  \<open>ValueError\<close>. The limit that newer interpreters put on the number of digits
  can be switched off (\<^verbatim>\<open>sys.set_int_max_str_digits(0)\<close>) and is taken as off.
\<close>

definition py_int :: "string \<Rightarrow> py_error + int" where
  "py_int s =
     (let t = num_strip s;
          neg = (take 1 t = ''-'');
          body = (if take 1 t = ''-'' \<or> take 1 t = ''+'' then drop 1 t else t);
          ds = filter (\<lambda>c. c \<noteq> CHR ''_'') body
      in if ds \<noteq> [] \<and> list_all is_digit ds \<and> underscores_ok (CHR 0x00) body
         then Inr (if neg then - int (digits_val 0 ds) else int (digits_val 0 ds))
         else Inl ValueError)"

definition to_lower :: "char \<Rightarrow> char" where
  "to_lower c = (if 65 \<le> (of_char c :: nat) \<and> (of_char c :: nat) \<le> 90
                 then char_of (of_char c + 32 :: nat) else c)"

text \<open>
  Rounding a magnitude to binary64, to nearest and ties to even: 53 significant
  bits above \<open>2 powi (- 1022)\<close>, multiples of \<open>2 powi (- 1074)\<close> below, and
  \<open>None\<close> when the rounded value does not fit (it is \<open>2 powi 1024\<close> or more).
\<close>

definition round_half_even :: "rat \<Rightarrow> int" where
  "round_half_even q =
     (let f = \<lfloor>q\<rfloor>; d = q - of_int f
      in if d < 1 / 2 then f else if 1 / 2 < d then f + 1
         else if even f then f else f + 1)"

definition floor_log2 :: "rat \<Rightarrow> int" where
  "floor_log2 q =
     (let (a, b) = quotient_of q; d = bitlen a - bitlen b
      in if 2 powi d \<le> q then d else d - 1)"

definition round_binary64 :: "rat \<Rightarrow> rat option" where
  "round_binary64 q =
     (if q = 0 then Some 0
      else let e = max (floor_log2 q) (- 1022);
               ulp = 2 powi (e - 52);
               r = of_int (round_half_even (q / ulp)) * ulp
           in if 2 powi 1024 \<le> r then None else Some r)"

text \<open>
  The decimal literal of \<^verbatim>\<open>float\<close>, lower-cased and without sign: digits, an
  optional point and digits (one of the two digit parts may be empty, not both),
  an optional exponent. The result is its exact value.
\<close>

definition float_literal :: "string \<Rightarrow> rat option" where
  "float_literal s =
     (let ip = takeWhile is_digit s;
          r1 = dropWhile is_digit s;
          fp = (if take 1 r1 = ''.'' then takeWhile is_digit (drop 1 r1) else []);
          r2 = (if take 1 r1 = ''.'' then dropWhile is_digit (drop 1 r1) else r1);
          m = of_nat (digits_val 0 (ip @ fp));
          r3 = drop 1 r2;
          ed = (if take 1 r3 = ''-'' \<or> take 1 r3 = ''+'' then drop 1 r3 else r3);
          ex = (if take 1 r3 = ''-'' then - int (digits_val 0 ed) else int (digits_val 0 ed))
      in if ip = [] \<and> fp = [] then None
         else if r2 = [] then Some (m * 10 powi (- int (length fp)))
         else if take 1 r2 = ''e'' \<and> ed \<noteq> [] \<and> list_all is_digit ed
              then Some (m * 10 powi (ex - int (length fp)))
         else None)"

text \<open>
  \<^verbatim>\<open>float(s)\<close> for a string: the underscores are checked and removed, the
  white space around is skipped, then a sign and \<^verbatim>\<open>inf\<close>, \<^verbatim>\<open>infinity\<close>,
  \<^verbatim>\<open>nan\<close> (in any case) or a decimal literal, rounded to binary64. A literal
  too large becomes an infinity; anything else is a \<open>ValueError\<close>.
\<close>

definition py_float :: "string \<Rightarrow> py_error + pyfloat" where
  "py_float s =
     (let t = num_strip (filter (\<lambda>c. c \<noteq> CHR ''_'') s);
          neg = (take 1 t = ''-'');
          body = map to_lower (if take 1 t = ''-'' \<or> take 1 t = ''+'' then drop 1 t else t)
      in if \<not> underscores_ok (CHR 0x00) s then Inl ValueError
         else if body = ''inf'' \<or> body = ''infinity'' then Inr (Inf neg)
         else if body = ''nan'' then Inr NaN
         else (case float_literal body of
                 None \<Rightarrow> Inl ValueError
               | Some q \<Rightarrow> Inr (case round_binary64 q of
                                   None \<Rightarrow> Inf neg
                                 | Some r \<Rightarrow> Fin neg r)))"

text \<open>
  \<^verbatim>\<open>a / b\<close> on two ints is the quotient rounded to binary64, an
  \<open>OverflowError\<close> when it does not fit. \<^verbatim>\<open>int(x)\<close> on a float truncates
  towards zero.
\<close>

definition py_truediv :: "int \<Rightarrow> int \<Rightarrow> py_error + pyfloat" where
  "py_truediv a b =
     (if b = 0 then Inl ZeroDivisionError
      else (case round_binary64 (\<bar>of_int a / of_int b\<bar>) of
              None \<Rightarrow> Inl OverflowError
            | Some r \<Rightarrow> Inr (Fin ((a < 0) \<noteq> (b < 0)) r)))"

definition py_int_of_float :: "pyfloat \<Rightarrow> py_error + int" where
  "py_int_of_float x =
     (case x of
        Fin s m \<Rightarrow> Inr (if s then - \<lfloor>m\<rfloor> else \<lfloor>m\<rfloor>)
      | Inf s \<Rightarrow> Inl OverflowError
      | NaN \<Rightarrow> Inl ValueError)"

section \<open>\<open>NodeResource\<close>: the class methods on strings\<close>

text \<open>
  The two slices the code takes: \<^verbatim>\<open>s[0:-2]\<close>, all but the last two characters
  (empty when there are fewer than two), and \<^verbatim>\<open>s[-2:]\<close>, the last two
  characters (all of \<open>s\<close> when there are fewer).
\<close>

definition but_last2 :: "string \<Rightarrow> string" where
  "but_last2 s = take (length s - 2) s"

definition last2 :: "string \<Rightarrow> string" where
  "last2 s = drop (length s - 2) s"

text \<open>
  \<^verbatim>\<open>convert_memory_to_mb\<close>: \<^verbatim>\<open>memory[-2:]\<close> is the unit, \<^verbatim>\<open>memory[0:-2]\<close>
  the text converted with \<^verbatim>\<open>int\<close>.
\<close>

definition convert_memory_to_mb :: "string \<Rightarrow> py_error + int" where
  "convert_memory_to_mb mem =
     (let u = last2 mem
      in case py_int (but_last2 mem) of
           Inl e \<Rightarrow> Inl e
         | Inr v \<Rightarrow>
             if u = ''Gi'' then Inr (v * 1024)
             else if u = ''Ki'' then
               (case py_truediv v 1024 of
                  Inl e \<Rightarrow> Inl e
                | Inr x \<Rightarrow> py_int_of_float x)
             else Inr v)"

text \<open>
  The local dictionary \<^verbatim>\<open>resource\<close> keeps its keys in the order of their first
  insertion; storing under a key that is present replaces the value in place.
\<close>

type_synonym dict = "(string \<times> string) list"

fun dict_set :: "dict \<Rightarrow> string \<Rightarrow> string \<Rightarrow> dict" where
  "dict_set [] k v = [(k, v)]"
| "dict_set ((k', v') # d) k v =
     (if k' = k then (k, v) # d else (k', v') # dict_set d k v)"

definition dict_get :: "dict \<Rightarrow> string \<Rightarrow> string \<Rightarrow> string" where
  "dict_get d k dflt = (case map_of d k of Some v \<Rightarrow> v | None \<Rightarrow> dflt)"

text \<open>
  The first loop, over the tokens: \<^verbatim>\<open>value.split("=")[1]\<close> raises
  \<open>IndexError\<close> for a token without \<^verbatim>\<open>=\<close>; parts after a second \<^verbatim>\<open>=\<close> are
  ignored.
\<close>

fun fill_dict :: "dict \<Rightarrow> string list \<Rightarrow> py_error + dict" where
  "fill_dict d [] = Inr d"
| "fill_dict d (tok # toks) =
     (case split (CHR ''='') tok of
        k # v # _ \<Rightarrow> fill_dict (dict_set d k v) toks
      | _ \<Rightarrow> Inl IndexError)"

text \<open>
  The second loop, over \<^verbatim>\<open>resource.items()\<close>: \<^verbatim>\<open>resource[key]\<close> is the value
  of the item. Every key that contains \<^verbatim>\<open>nvidia.com\<close> has its value converted.
\<close>

fun scan_gpu :: "dict \<Rightarrow> string option \<times> int \<Rightarrow> py_error + (string option \<times> int)" where
  "scan_gpu [] acc = Inr acc"
| "scan_gpu ((key, v) # items) acc =
     (if contains ''nvidia.com'' key
      then (case py_int v of
              Inl e \<Rightarrow> Inl e
            | Inr n \<Rightarrow> scan_gpu items (Some key, n))
      else scan_gpu items acc)"

definition resource_str_to_node_resource :: "string option \<Rightarrow> py_error + NodeResource" where
  "resource_str_to_node_resource resource_str =
     (case resource_str of
        None \<Rightarrow> Inr (NodeResource_init (PyInt 0) (PyInt 0) None 0)
      | Some s \<Rightarrow>
          if s = [] then Inr (NodeResource_init (PyInt 0) (PyInt 0) None 0)
          else
            (case fill_dict [] (split (CHR '','') (strip s)) of
               Inl e \<Rightarrow> Inl e
             | Inr resource \<Rightarrow>
                 (case py_float (but_last2 (dict_get resource ''memory'' ''0Mi'')) of
                    Inl e \<Rightarrow> Inl e
                  | Inr mem \<Rightarrow>
                      (case py_float (dict_get resource ''cpu'' ''0'') of
                         Inl e \<Rightarrow> Inl e
                       | Inr c \<Rightarrow>
                           (case scan_gpu resource (None, 0) of
                              Inl e \<Rightarrow> Inl e
                            | Inr (g_type, g_num) \<Rightarrow>
                                Inr (NodeResource_init (PyFloat c) (PyFloat mem)
                                       g_type g_num))))))"

section \<open>Sequences of calls and sample states\<close>


text \<open>
  A heap with nothing allocated, a worker node built on it with the default
  arguments of the constructor (addresses: 0 its configured resource, 1 its used
  resource, 2 the node), and the same node after it failed and was released.
\<close>

definition heap0 :: heap where
  "heap0 = \<lparr>resources = (\<lambda>_. NodeResource_init (PyInt 0) (PyInt 0) None 0),
            nodes = (\<lambda>_. \<lparr>node_type = '''', node_id = 0, name = None, status = INITIAL,
               start_time = None, task_index = 0, relaunch_count = 0, critical = False,
               max_relaunch_count = 0, relaunchable = True, service_addr = None,
               create_time = 0, finish_time = 0,
               is_recovered_oom = False, is_released = False, exit_reason = None,
               config_resource = 0, used_resource = 0\<rparr>),
            next_ref = 0\<rparr>"

definition worker_heap :: heap where
  "worker_heap =
     (let (h1, cfg) = new_NodeResource heap0 (PyInt 4) (PyInt 1024) None 0
      in fst (Node_init h1 1000 ''worker'' 3 cfg None INITIAL None None 0 False 0 True None))"


section \<open>Decimal rendering of integers\<close>





section \<open>Notions used to state the properties of the parser\<close>

text \<open>
  The tokens the first loop of \<^verbatim>\<open>resource_str_to_node_resource\<close> runs over
  (none when the input is \<^verbatim>\<open>None\<close> or empty, where the function returns
  before the loop), the key and the value of a token, and the distinct elements
  of a list in the order of their first occurrence, which is the order of the
  keys of a dictionary filled from that list. \<open>split\<close> never returns the empty
  list, so a token always has a key; it has a value when it contains \<^verbatim>\<open>=\<close>,
  and \<open>token_value\<close> is only read for such tokens.
\<close>

definition resource_tokens :: "string option \<Rightarrow> string list" where
  "resource_tokens resource_str =
     (case resource_str of
        None \<Rightarrow> []
      | Some s \<Rightarrow> if s = [] then [] else split (CHR '','') (strip s))"

definition token_key :: "string \<Rightarrow> string" where
  "token_key tok = hd (split (CHR ''='') tok)"

definition token_value :: "string \<Rightarrow> string" where
  "token_value tok = hd (tl (split (CHR ''='') tok))"

definition first_occurrences :: "'a list \<Rightarrow> 'a list" where
  "first_occurrences ks = rev (remdups (rev ks))"

text \<open>
  The value a key has after the first loop is the value of the last token with
  that key; \<open>text_of toks k dflt\<close> is what \<^verbatim>\<open>resource.get(k, dflt)\<close> reads.
\<close>

definition last_value :: "string list \<Rightarrow> string \<Rightarrow> string" where
  "last_value toks k = token_value (last (filter (\<lambda>t. token_key t = k) toks))"


text \<open>
  The invariant the specification states for a resource: cpu, memory and the
  accelerator count are not negative, and a positive count comes with a
  non-empty accelerator type.
\<close>

definition resource_invariant :: "NodeResource \<Rightarrow> bool" where
  "resource_invariant r =
     (py_ge (cpu r) (PyInt 0) \<and> py_ge (memory r) (PyInt 0) \<and> 0 \<le> gpu_num r
      \<and> (0 < gpu_num r \<longrightarrow> (case gpu_type r of None \<Rightarrow> False | Some k \<Rightarrow> k \<noteq> [])))"

section \<open>Properties of \<open>Node\<close>\<close>

lemma worker_heap_simps:
  "next_ref worker_heap = 3"
  "nodes worker_heap 2 =
     \<lparr>node_type = ''worker'', node_id = 3, name = None, status = INITIAL,
      start_time = None, task_index = 3, relaunch_count = 0, critical = False,
      max_relaunch_count = 0, relaunchable = True, service_addr = None,
      create_time = 1000, finish_time = 1000,
      is_recovered_oom = False, is_released = False, exit_reason = None,
      config_resource = 0, used_resource = 1\<rparr>"
  "resources worker_heap 0 = NodeResource_init (PyInt 4) (PyInt 1024) None 0"
  "resources worker_heap (Suc 0) =
     NodeResource_init (PyFloat (Fin False 0)) (PyFloat (Fin False 0)) None 0"
  by (simp_all add: worker_heap_def heap0_def new_NodeResource_def Node_init_def Let_def)

text \<open>
  C1. \<^verbatim>\<open>is_unrecoverable_failure\<close> is true exactly when the relaunch count has
  reached the maximum, or the exit reason is \<open>FATAL_ERROR\<close>, or the used memory
  is at least \<open>MAX_MEMORY\<close>; in particular it is true whenever the relaunch
  count equals the maximum, whatever the other fields are (also when both are 0).
\<close>

theorem is_unrecoverable_failure_iff:
  "(is_unrecoverable_failure MAX_MEMORY h self \<longleftrightarrow>
      relaunch_count (nodes h self) \<ge> max_relaunch_count (nodes h self)
      \<or> exit_reason (nodes h self) = Some FATAL_ERROR
      \<or> py_ge (memory (resources h (used_resource (nodes h self)))) MAX_MEMORY)
   \<and> (relaunch_count (nodes h self) = max_relaunch_count (nodes h self)
        \<longrightarrow> is_unrecoverable_failure MAX_MEMORY h self)"
  by (simp add: is_unrecoverable_failure_def)

theorem is_unrecoverable_failure_iff_witness:
  "relaunch_count (nodes worker_heap 2) = max_relaunch_count (nodes worker_heap 2)
   \<and> max_relaunch_count (nodes worker_heap 2) = 0
   \<and> exit_reason (nodes worker_heap 2) \<noteq> Some FATAL_ERROR
   \<and> \<not> py_ge (memory (resources worker_heap (used_resource (nodes worker_heap 2)))) (PyInt 65536)
   \<and> is_unrecoverable_failure (PyInt 65536) worker_heap 2"
  using is_unrecoverable_failure_iff [of "PyInt 65536" worker_heap 2]
  by (simp add: worker_heap_simps NodeResource_init_def py_ge_def)

text \<open>
  C2. \<^verbatim>\<open>get_relaunch_node_info(new_id)\<close> returns a new node with the new id, no
  name, status \<open>INITIAL\<close>, no start time, not released and relaunchable; type,
  task index, criticality, relaunch count, maximal relaunch count and the values
  of both resources are those of the original. Nothing is incremented, the new
  node and its resource objects are new objects, and the original node, its
  resource objects and every other existing object are unchanged.
\<close>

theorem get_relaunch_node_info_successor:
  assumes "allocated h self" and "get_relaunch_node_info h self new_id = (h', new)"
  shows "node_id (nodes h' new) = new_id \<and> name (nodes h' new) = None
       \<and> status (nodes h' new) = INITIAL \<and> start_time (nodes h' new) = None
       \<and> \<not> is_released (nodes h' new) \<and> relaunchable (nodes h' new)
       \<and> node_type (nodes h' new) = node_type (nodes h self)
       \<and> task_index (nodes h' new) = task_index (nodes h self)
       \<and> critical (nodes h' new) = critical (nodes h self)
       \<and> relaunch_count (nodes h' new) = relaunch_count (nodes h self)
       \<and> max_relaunch_count (nodes h' new) = max_relaunch_count (nodes h self)
       \<and> resources h' (config_resource (nodes h' new)) = resources h (config_resource (nodes h self))
       \<and> resources h' (used_resource (nodes h' new)) = resources h (used_resource (nodes h self))
       \<and> next_ref h \<le> new \<and> next_ref h \<le> config_resource (nodes h' new)
       \<and> next_ref h \<le> used_resource (nodes h' new)
       \<and> nodes h' self = nodes h self
       \<and> resources h' (config_resource (nodes h self)) = resources h (config_resource (nodes h self))
       \<and> resources h' (used_resource (nodes h self)) = resources h (used_resource (nodes h self))
       \<and> (\<forall>r < next_ref h. nodes h' r = nodes h r \<and> resources h' r = resources h r)"
  using assms
  by (auto simp: get_relaunch_node_info_def deepcopy_Node_def allocated_def Let_def)

theorem get_relaunch_node_info_successor_witness:
  "allocated worker_heap 2
   \<and> snd (get_relaunch_node_info worker_heap 2 9) = 5
   \<and> node_id (nodes (fst (get_relaunch_node_info worker_heap 2 9)) 5) = 9
   \<and> status (nodes (fst (get_relaunch_node_info worker_heap 2 9)) 5) = INITIAL
   \<and> task_index (nodes (fst (get_relaunch_node_info worker_heap 2 9)) 5) = 3
   \<and> relaunch_count (nodes (fst (get_relaunch_node_info worker_heap 2 9)) 5) = 0
   \<and> nodes (fst (get_relaunch_node_info worker_heap 2 9)) 2 = nodes worker_heap 2"
proof -
  have a: "allocated worker_heap 2"
    by (simp add: allocated_def worker_heap_simps)
  have n: "snd (get_relaunch_node_info worker_heap 2 9) = 5"
    by (simp add: get_relaunch_node_info_def deepcopy_Node_def worker_heap_simps Let_def)
  have "get_relaunch_node_info worker_heap 2 9 = (fst (get_relaunch_node_info worker_heap 2 9), 5)"
    using n by (simp add: prod_eq_iff)
  from get_relaunch_node_info_successor [OF a this] a n show ?thesis
    by (simp add: worker_heap_simps)
qed







text \<open>
  C9. A node that \<^verbatim>\<open>Node.__init__\<close> has just built has a used resource with cpu
  0.0 and memory 0.0, is not released, has no exit reason, is not recovered from
  OOM, and its creation and finish times are equal, whatever the arguments;
  hence, when \<open>MAX_MEMORY\<close> is positive, \<^verbatim>\<open>is_unrecoverable_failure\<close> on it is
  decided by the relaunch count against the maximum alone.
\<close>

theorem Node_init_fresh:
  assumes "Node_init h now ntype nid cfg nm st start tidx rc crit maxrc rl svc = (h', self)"
  shows "cpu (resources h' (used_resource (nodes h' self))) = PyFloat (Fin False 0)
       \<and> memory (resources h' (used_resource (nodes h' self))) = PyFloat (Fin False 0)
       \<and> \<not> is_released (nodes h' self) \<and> exit_reason (nodes h' self) = None
       \<and> \<not> is_recovered_oom (nodes h' self)
       \<and> create_time (nodes h' self) = finish_time (nodes h' self)
       \<and> (py_gt MAX_MEMORY (PyInt 0) \<longrightarrow>
            is_unrecoverable_failure MAX_MEMORY h' self = (rc \<ge> maxrc))"
proof -
  have "py_gt MAX_MEMORY (PyInt 0) \<Longrightarrow> \<not> py_ge (PyFloat (Fin False 0)) MAX_MEMORY"
    by (auto simp: py_gt_def py_ge_def split: option.splits sum.splits elim!: ext_ge.elims)
  then show ?thesis using assms
    by (auto simp: Node_init_def new_NodeResource_def NodeResource_init_def
        is_unrecoverable_failure_def Let_def)
qed

theorem Node_init_fresh_witness:
  "py_gt (PyInt 65536) (PyInt 0)
   \<and> \<not> is_unrecoverable_failure (PyInt 65536)
        (fst (Node_init heap0 1000 ''ps'' 0 0 None INITIAL None None 1 True 3 True None))
        (snd (Node_init heap0 1000 ''ps'' 0 0 None INITIAL None None 1 True 3 True None))"
  using Node_init_fresh [of heap0 1000 "''ps''" 0 0 None INITIAL None None 1 True 3 True None
      "fst (Node_init heap0 1000 ''ps'' 0 0 None INITIAL None None 1 True 3 True None)"
      "snd (Node_init heap0 1000 ''ps'' 0 0 None INITIAL None None 1 True 3 True None)"
      "PyInt 65536"]
  by (simp add: py_gt_def py_ge_def)

section \<open>Facts about the builtins\<close>

lemma powi2_pos: "0 < (2::rat) powi e"
  by (simp add: zero_less_power_int)

lemma powi2_add: "(2::rat) powi (a + b) = 2 powi a * 2 powi b"
  by (simp add: power_int_add)

lemma powi2_mono: "a \<le> b \<Longrightarrow> (2::rat) powi a \<le> 2 powi b"
  by (simp add: power_int_increasing)

lemma powi2_less_cancel: "(2::rat) powi a < 2 powi b \<Longrightarrow> a < b"
  using powi2_mono [of b a] by (cases "b \<le> a") auto

lemma powi2_nat: "0 \<le> e \<Longrightarrow> (2::rat) powi e = of_int (2 ^ nat e)"
  by (simp add: power_int_def)

lemma floor_log2_lower:
  assumes "0 < q"
  shows "2 powi (floor_log2 q) \<le> q"
proof -
  obtain a b where ab: "quotient_of q = (a, b)" by (cases "quotient_of q")
  have b: "0 < b" using ab quotient_of_denom_pos by blast
  have q: "q = of_int a / of_int b" using ab by (simp add: quotient_of_div)
  have a: "0 < a" using assms b q by (simp add: zero_less_divide_iff)
  define d where "d = bitlen a - bitlen b"
  have la: "2 ^ nat (bitlen a - 1) \<le> a" using bitlen_bounds [OF a] by simp
  have lb: "b < 2 ^ nat (bitlen b)" using bitlen_bounds [OF b] by simp
  have ba: "1 \<le> bitlen a" using a by (simp add: bitlen_alt_def)
  have bb: "0 \<le> bitlen b" by (rule bitlen_nonneg)
  have "(2::rat) powi (d - 1) * of_int b \<le> 2 powi (d - 1) * 2 powi (bitlen b)"
  proof -
    have "(of_int b :: rat) \<le> of_int (2 ^ nat (bitlen b))" using lb by (simp only: of_int_le_iff)
    then have "(of_int b :: rat) \<le> 2 powi (bitlen b)" using bb by (simp add: powi2_nat)
    then show ?thesis using powi2_pos [of "d - 1"] by simp
  qed
  also have "\<dots> = 2 powi (bitlen a - 1)"
    by (simp add: d_def powi2_add [symmetric])
  also have "\<dots> \<le> of_int a"
  proof -
    have "(of_int (2 ^ nat (bitlen a - 1)) :: rat) \<le> of_int a" using la by (simp only: of_int_le_iff)
    then show ?thesis using ba by (simp add: powi2_nat)
  qed
  finally have "(2::rat) powi (d - 1) \<le> q"
    using b by (simp add: q pos_le_divide_eq)
  then show ?thesis
    by (simp add: floor_log2_def ab d_def Let_def)
qed




lemma round_half_even_of_int: "round_half_even (of_int z) = z"
  by (simp add: round_half_even_def)

lemma round_binary64_exact:
  assumes k: "0 < k" "k < 2 ^ 53" and e: "- 1074 \<le> e" "e \<le> 971"
  shows "round_binary64 (of_int k * 2 powi e) = Some (of_int k * 2 powi e)"
proof -
  define q :: rat where "q = of_int k * 2 powi e"
  have q0: "0 < q" using k(1) powi2_pos [of e] by (simp add: q_def)
  have "q < of_int (2 ^ 53) * 2 powi e"
    unfolding q_def using k(2) powi2_pos [of e]
    by (simp only: mult_less_cancel_right_pos of_int_less_iff)
  also have "\<dots> = 2 powi (53 + e)" by (simp add: powi2_add)
  finally have qlt: "q < 2 powi (53 + e)" .
  then have "2 powi (floor_log2 q) < (2::rat) powi (53 + e)"
    using floor_log2_lower [OF q0] by simp
  then have fl: "floor_log2 q < 53 + e" by (rule powi2_less_cancel)
  define E where "E = max (floor_log2 q) (- 1022)"
  define j where "j = e + 52 - E"
  have j: "0 \<le> j" using fl e(1) by (simp add: j_def E_def)
  have "q / 2 powi (E - 52) = of_int k * (2 powi e * 2 powi (52 - E))"
    by (simp add: q_def power_int_diff field_simps)
  also have "2 powi e * (2::rat) powi (52 - E) = 2 powi j"
    by (simp add: j_def powi2_add [symmetric] add_diff_eq)
  also have "of_int k * (2::rat) powi j = of_int (k * 2 ^ nat j)"
    using j by (simp add: powi2_nat)
  finally have quot: "q / 2 powi (E - 52) = of_int (k * 2 ^ nat j)" .
  have "of_int (k * 2 ^ nat j) * (2::rat) powi (E - 52) = of_int k * (2 powi j * 2 powi (E - 52))"
    using j by (simp add: powi2_nat)
  also have "(2::rat) powi j * 2 powi (E - 52) = 2 powi e"
    by (simp add: j_def powi2_add [symmetric] algebra_simps)
  finally have again: "of_int (k * 2 ^ nat j) * (2::rat) powi (E - 52) = q"
    by (simp add: q_def)
  have "q < 2 powi 1024"
    using qlt powi2_mono [of "53 + e" 1024] e(2) by simp
  then have fits: "\<not> 2 powi 1024 \<le> q" by simp
  have r: "of_int (round_half_even (q / 2 powi (E - 52))) * 2 powi (E - 52) = q"
    by (simp only: quot round_half_even_of_int again)
  have q1: "q \<noteq> 0" using q0 by simp
  have "round_binary64 q = Some q"
    unfolding round_binary64_def Let_def E_def [symmetric]
    by (simp only: r fits q1 if_False)
  then show ?thesis by (simp add: q_def)
qed




lemma is_digit_not_special:
  "is_digit c \<Longrightarrow> \<not> num_isspace c \<and> c \<noteq> CHR ''_'' \<and> c \<noteq> CHR ''-'' \<and> c \<noteq> CHR ''+''"
  by (auto simp: is_digit_def num_isspace_def)





lemma underscores_ok_digits:
  "list_all is_digit cs \<Longrightarrow> cs \<noteq> [] \<or> prev \<noteq> CHR ''_'' \<Longrightarrow> underscores_ok prev cs"
  by (induction cs arbitrary: prev) (auto dest: is_digit_not_special)

lemma filter_digits: "list_all is_digit cs \<Longrightarrow> filter (\<lambda>c. c \<noteq> CHR ''_'') cs = cs"
  by (induction cs) (auto dest: is_digit_not_special)

lemma num_strip_id:
  "s \<noteq> [] \<Longrightarrow> \<not> num_isspace (hd s) \<Longrightarrow> \<not> num_isspace (last s) \<Longrightarrow> num_strip s = s"
proof -
  assume s: "s \<noteq> []" and h: "\<not> num_isspace (hd s)" and l: "\<not> num_isspace (last s)"
  have 1: "dropWhile num_isspace s = s" using s h by (cases s) simp_all
  have "rev s \<noteq> []" "\<not> num_isspace (hd (rev s))" using s l by (simp_all add: hd_rev)
  then have 2: "dropWhile num_isspace (rev s) = rev s" by (cases "rev s") simp_all
  show ?thesis by (simp add: num_strip_def 1 2)
qed



section \<open>Properties of \<open>convert_memory_to_mb\<close>\<close>









section \<open>Facts about the parser\<close>

lemma to_lower_digit: "is_digit c \<Longrightarrow> to_lower c = c"
  by (simp add: to_lower_def is_digit_def)

lemma map_to_lower_digits: "list_all is_digit ds \<Longrightarrow> map to_lower ds = ds"
  by (induction ds) (simp_all add: to_lower_digit)

lemma takeWhile_digits: "list_all is_digit ds \<Longrightarrow> takeWhile is_digit ds = ds"
  by (induction ds) simp_all

lemma dropWhile_digits: "list_all is_digit ds \<Longrightarrow> dropWhile is_digit ds = []"
  by (induction ds) simp_all

lemma float_literal_digits:
  "list_all is_digit ds \<Longrightarrow> ds \<noteq> [] \<Longrightarrow> float_literal ds = Some (of_nat (digits_val 0 ds))"
  by (simp add: float_literal_def takeWhile_digits dropWhile_digits Let_def)

lemma round_binary64_nat:
  assumes "k < 2 ^ 53"
  shows "round_binary64 (of_nat k) = Some (of_nat k)"
proof (cases "k = 0")
  case True
  then show ?thesis by (simp add: round_binary64_def)
next
  case False
  have "round_binary64 (of_int (int k) * 2 powi 0) = Some (of_int (int k) * 2 powi 0)"
    using assms False by (intro round_binary64_exact) simp_all
  then show ?thesis by simp
qed

lemma digits_not_word:
  assumes "list_all is_digit ds" and "ds \<noteq> []"
  shows "ds \<noteq> ''inf''" "ds \<noteq> ''infinity''" "ds \<noteq> ''nan''"
  using assms by (auto simp: is_digit_def)

lemma py_float_digits:
  assumes "list_all is_digit ds" and "ds \<noteq> []" and "digits_val 0 ds < 2 ^ 53"
  shows "py_float ds = Inr (Fin False (of_nat (digits_val 0 ds)))"
    and "py_float (CHR ''-'' # ds) = Inr (Fin True (of_nat (digits_val 0 ds)))"
proof -
  have hd: "is_digit (hd ds)" and lst: "is_digit (last ds)"
    using assms by (cases ds, simp_all add: list_all_iff)+
  have s1: "num_strip ds = ds"
    using assms hd lst by (simp add: num_strip_id is_digit_not_special)
  have s2: "num_strip (CHR ''-'' # ds) = CHR ''-'' # ds"
  proof (rule num_strip_id)
    show "\<not> num_isspace (hd (CHR ''-'' # ds))" by (simp add: num_isspace_def)
    show "\<not> num_isspace (last (CHR ''-'' # ds))"
      using assms(2) lst by (simp add: is_digit_not_special)
  qed simp
  have t: "take 1 ds \<noteq> ''-''" "take 1 ds \<noteq> ''+''"
    using assms hd by (cases ds; auto dest: is_digit_not_special)+
  have u: "underscores_ok (CHR 0x00) ds" "underscores_ok (CHR 0x00) (CHR ''-'' # ds)"
    using assms by (simp_all add: underscores_ok_digits)
  note w = digits_not_word [OF assms(1,2)]
  show "py_float ds = Inr (Fin False (of_nat (digits_val 0 ds)))"
    using assms t u w
    by (simp add: py_float_def filter_digits s1 Let_def map_to_lower_digits
        float_literal_digits round_binary64_nat)
  show "py_float (CHR ''-'' # ds) = Inr (Fin True (of_nat (digits_val 0 ds)))"
    using assms u w
    by (simp add: py_float_def filter_digits s2 Let_def map_to_lower_digits
        float_literal_digits round_binary64_nat)
qed

lemma py_float_samples:
  "py_float ''0'' = Inr (Fin False 0)"
  "py_float ''1'' = Inr (Fin False 1)"
  "py_float ''5'' = Inr (Fin False 5)"
  "py_float ''-1'' = Inr (Fin True 1)"
  using py_float_digits [of "''0''"] py_float_digits [of "''1''"] py_float_digits [of "''5''"]
  by (simp_all add: is_digit_def digit_val_def)


lemma split_nonempty: "split sep s \<noteq> []"
  by (induction s) (auto split: list.splits)

lemma dict_set_map_of: "map_of (dict_set d k v) = (map_of d)(k \<mapsto> v)"
  by (induction d k v rule: dict_set.induct) auto

lemma dict_set_keys:
  "map fst (dict_set d k v) = (if k \<in> set (map fst d) then map fst d else map fst d @ [k])"
  by (induction d k v rule: dict_set.induct) auto

lemma first_occurrences_snoc:
  "first_occurrences (ks @ [k]) =
     (if k \<in> set ks then first_occurrences ks else first_occurrences ks @ [k])"
  by (simp add: first_occurrences_def)

lemma set_first_occurrences: "set (first_occurrences ks) = set ks"
  by (simp add: first_occurrences_def)

lemma first_occurrences_distinct: "distinct ks \<Longrightarrow> first_occurrences ks = ks"
  by (simp add: first_occurrences_def distinct_remdups_id)

lemma fill_dict_step:
  "fill_dict d (tok # toks) =
     (if 2 \<le> length (split (CHR ''='') tok)
      then fill_dict (dict_set d (token_key tok) (token_value tok)) toks
      else Inl IndexError)"
  by (auto simp: token_key_def token_value_def split: list.splits)

lemma fill_dict_Inr:
  assumes "fill_dict d0 toks = Inr d"
  shows "(\<forall>t \<in> set toks. 2 \<le> length (split (CHR ''='') t))
       \<and> map_of d = map_of (rev (map (\<lambda>t. (token_key t, token_value t)) toks) @ d0)
       \<and> (\<forall>ks0. map fst d0 = first_occurrences ks0 \<longrightarrow>
             map fst d = first_occurrences (ks0 @ map token_key toks))"
  using assms
proof (induction toks arbitrary: d0)
  case Nil
  then show ?case by simp
next
  case (Cons tok toks)
  have len: "2 \<le> length (split (CHR ''='') tok)"
  proof (rule ccontr)
    assume "\<not> 2 \<le> length (split (CHR ''='') tok)"
    then have "fill_dict d0 (tok # toks) = Inl IndexError"
      by (simp only: fill_dict_step if_False)
    with Cons.prems show False by simp
  qed
  have rest: "fill_dict (dict_set d0 (token_key tok) (token_value tok)) toks = Inr d"
    using Cons.prems len by (simp only: fill_dict_step if_True)
  note ih = Cons.IH [OF rest]
  have keys: "map fst (dict_set d0 (token_key tok) (token_value tok)) =
      first_occurrences (ks0 @ [token_key tok])" if h: "map fst d0 = first_occurrences ks0" for ks0
    by (simp only: dict_set_keys first_occurrences_snoc h set_first_occurrences)
  have m: "map_of d = map_of (rev (map (\<lambda>t. (token_key t, token_value t)) (tok # toks)) @ d0)"
  proof -
    have "map_of d = map_of (rev (map (\<lambda>t. (token_key t, token_value t)) toks)
              @ dict_set d0 (token_key tok) (token_value tok))"
      using ih by blast
    also have "\<dots> = map_of (rev (map (\<lambda>t. (token_key t, token_value t)) toks)
              @ (token_key tok, token_value tok) # d0)"
      by (simp only: map_of_append dict_set_map_of map_of.simps prod.sel)
    finally show ?thesis by simp
  qed
  have k: "map fst d = first_occurrences (ks0 @ map token_key (tok # toks))"
    if h: "map fst d0 = first_occurrences ks0" for ks0
  proof -
    have "map fst d = first_occurrences ((ks0 @ [token_key tok]) @ map token_key toks)"
      using ih keys [OF h] by blast
    then show ?thesis by simp
  qed
  have a: "\<forall>t \<in> set (tok # toks). 2 \<le> length (split (CHR ''='') t)"
    using len ih by simp
  from a m k show ?case by blast
qed


lemma scan_gpu_Inr:
  assumes "scan_gpu items acc = Inr (t, n)"
  shows "(if filter (\<lambda>kv. contains ''nvidia.com'' (fst kv)) items = [] then (t, n) = acc
          else t = Some (fst (last (filter (\<lambda>kv. contains ''nvidia.com'' (fst kv)) items)))
             \<and> py_int (snd (last (filter (\<lambda>kv. contains ''nvidia.com'' (fst kv)) items))) = Inr n)"
  using assms
proof (induction items arbitrary: acc)
  case Nil
  then show ?case by simp
next
  case (Cons kv items)
  obtain k v where kv: "kv = (k, v)" by (cases kv)
  show ?case
  proof (cases "contains ''nvidia.com'' k")
    case False
    with Cons.prems kv have "scan_gpu items acc = Inr (t, n)" by simp
    from Cons.IH [OF this] False kv show ?thesis by simp
  next
    case True
    then obtain m where m: "py_int v = Inr m" and rest: "scan_gpu items (Some k, m) = Inr (t, n)"
      using Cons.prems kv by (auto split: sum.splits)
    show ?thesis using Cons.IH [OF rest] True kv m by (auto split: if_splits)
  qed
qed

lemma parse_None:
  "resource_str_to_node_resource None = Inr (NodeResource_init (PyInt 0) (PyInt 0) None 0)"
  "resource_str_to_node_resource (Some []) = Inr (NodeResource_init (PyInt 0) (PyInt 0) None 0)"
  by (simp_all add: resource_str_to_node_resource_def)

lemma parse_Some:
  assumes "s \<noteq> []"
  shows "resource_str_to_node_resource (Some s) =
     (case fill_dict [] (resource_tokens (Some s)) of
        Inl e \<Rightarrow> Inl e
      | Inr d \<Rightarrow>
          (case py_float (but_last2 (dict_get d ''memory'' ''0Mi'')) of
             Inl e \<Rightarrow> Inl e
           | Inr mem \<Rightarrow>
               (case py_float (dict_get d ''cpu'' ''0'') of
                  Inl e \<Rightarrow> Inl e
                | Inr c \<Rightarrow>
                    (case scan_gpu d (None, 0) of
                       Inl e \<Rightarrow> Inl e
                     | Inr (t, n) \<Rightarrow> Inr (NodeResource_init (PyFloat c) (PyFloat mem) t n)))))"
  using assms by (simp add: resource_str_to_node_resource_def resource_tokens_def)

lemma parse_Inr:
  assumes "resource_str_to_node_resource (Some s) = Inr r" and "s \<noteq> []"
  obtains d mem c t n where
    "fill_dict [] (resource_tokens (Some s)) = Inr d"
    "py_float (but_last2 (dict_get d ''memory'' ''0Mi'')) = Inr mem"
    "py_float (dict_get d ''cpu'' ''0'') = Inr c"
    "scan_gpu d (None, 0) = Inr (t, n)"
    "r = NodeResource_init (PyFloat c) (PyFloat mem) t n"
  using assms(1) unfolding parse_Some [OF assms(2)]
  by (auto split: sum.splits prod.splits)

lemma contains_nonempty: "contains ''nvidia.com'' k \<Longrightarrow> k \<noteq> []"
  by auto

lemma fill_dict_keys:
  assumes "fill_dict [] toks = Inr d"
  shows "map fst d = first_occurrences (map token_key toks)" and "distinct (map fst d)"
proof -
  have "map fst ([] :: dict) = first_occurrences []" by (simp add: first_occurrences_def)
  with fill_dict_Inr [OF assms] show 1: "map fst d = first_occurrences (map token_key toks)"
    by (metis append_Nil)
  show "distinct (map fst d)" unfolding 1 by (simp add: first_occurrences_def)
qed

lemma map_of_rev_last:
  assumes "k \<in> set (map (\<lambda>t. fst (f t)) toks)"
  shows "map_of (rev (map f toks)) k = Some (snd (f (last (filter (\<lambda>t. fst (f t) = k) toks))))"
  using assms
proof (induction toks rule: rev_induct)
  case Nil
  then show ?case by simp
next
  case (snoc t toks)
  show ?case
  proof (cases "fst (f t) = k")
    case True
    then show ?thesis by (cases "f t") auto
  next
    case False
    with snoc.prems have "k \<in> set (map (\<lambda>t. fst (f t)) toks)" by auto
    from snoc.IH [OF this] False show ?thesis by (cases "f t") auto
  qed
qed

lemma fill_dict_value:
  assumes "fill_dict [] toks = Inr d" and "k \<in> set (map token_key toks)"
  shows "map_of d k = Some (last_value toks k)"
proof -
  have "map_of d = map_of (rev (map (\<lambda>t. (token_key t, token_value t)) toks))"
    using fill_dict_Inr [OF assms(1)] by simp
  then show ?thesis
    using map_of_rev_last [of k "\<lambda>t. (token_key t, token_value t)" toks] assms(2)
    by (simp add: last_value_def)
qed



lemma filter_gpu_items:
  "map fst (filter (\<lambda>kv. contains ''nvidia.com'' (fst kv)) d) =
     filter (contains ''nvidia.com'') (map fst d)"
  by (induction d) auto

lemma parse_gpu:
  assumes "resource_str_to_node_resource rs = Inr r"
  shows "(if filter (contains ''nvidia.com'') (first_occurrences (map token_key (resource_tokens rs))) = []
          then gpu_type r = None \<and> gpu_num r = 0
          else gpu_type r = Some (last (filter (contains ''nvidia.com'')
                   (first_occurrences (map token_key (resource_tokens rs)))))
             \<and> py_int (last_value (resource_tokens rs) (last (filter (contains ''nvidia.com'')
                   (first_occurrences (map token_key (resource_tokens rs)))))) = Inr (gpu_num r))"
proof (cases "rs = None \<or> rs = Some []")
  case True
  then show ?thesis using assms
    by (auto simp: parse_None resource_tokens_def first_occurrences_def NodeResource_init_def)
next
  case False
  then obtain s where rs: "rs = Some s" and s: "s \<noteq> []" by auto
  define toks where "toks = resource_tokens rs"
  define gks where "gks = filter (contains ''nvidia.com'') (first_occurrences (map token_key toks))"
  from assms rs s obtain d mem c t n where
    d: "fill_dict [] toks = Inr d"
    and g: "scan_gpu d (None, 0) = Inr (t, n)"
    and r: "r = NodeResource_init (PyFloat c) (PyFloat mem) t n"
    unfolding toks_def by (auto elim: parse_Inr)
  define g_items where "g_items = filter (\<lambda>kv. contains ''nvidia.com'' (fst kv)) d"
  have keys: "map fst g_items = gks"
    by (simp add: g_items_def gks_def filter_gpu_items fill_dict_keys(1) [OF d])
  note sg = scan_gpu_Inr [OF g, folded g_items_def]
  show ?thesis
  proof (cases "gks = []")
    case True
    then have "g_items = []" using keys by simp
    with sg r True show ?thesis
      by (simp add: gks_def toks_def NodeResource_init_def)
  next
    case False
    then have ne: "g_items \<noteq> []" using keys by auto
    have t: "t = Some (last gks)"
      using sg ne keys by (simp add: last_map [symmetric])
    have mem: "last g_items \<in> set d"
      using ne last_in_set [of g_items] by (auto simp: g_items_def)
    have "map_of d (fst (last g_items)) = Some (snd (last g_items))"
      using mem fill_dict_keys(2) [OF d] by simp
    moreover have "fst (last g_items) = last gks"
      using ne keys by (simp add: last_map [symmetric])
    moreover have "last gks \<in> set (map token_key toks)"
      using False last_in_set [of gks] by (auto simp: gks_def set_first_occurrences)
    ultimately have "snd (last g_items) = last_value toks (last gks)"
      using fill_dict_value [OF d, of "last gks"] by simp
    with sg ne have "py_int (last_value toks (last gks)) = Inr n"
      by simp
    with t r False show ?thesis
      by (simp add: gks_def toks_def NodeResource_init_def)
  qed
qed


lemma distinct_filter_same:
  "distinct (map f xs) \<Longrightarrow> x \<in> set xs \<Longrightarrow> filter (\<lambda>t. f t = f x) xs = [x]"
proof (induction xs)
  case Nil
  then show ?case by simp
next
  case (Cons a xs)
  show ?case
  proof (cases "a = x")
    case True
    have "filter (\<lambda>t. f t = f x) xs = []"
      using Cons.prems(1) True by (force simp: filter_empty_conv image_iff)
    with True show ?thesis by simp
  next
    case False
    with Cons.prems have "x \<in> set xs" "f a \<noteq> f x" by auto
    with Cons show ?thesis by simp
  qed
qed

lemma last_value_distinct:
  assumes "distinct (map token_key toks)" and "t \<in> set toks"
  shows "last_value toks (token_key t) = token_value t"
  by (simp add: last_value_def distinct_filter_same [OF assms])














lemma resource_tokens_nonempty:
  "resource_tokens rs \<noteq> [] \<longleftrightarrow> (\<exists>s. rs = Some s \<and> s \<noteq> [])"
  by (auto simp: resource_tokens_def split_nonempty split: option.splits)




lemma eval_memory_1Gi:
  "resource_str_to_node_resource (Some ''memory=1Gi'') =
     Inr (NodeResource_init (PyFloat (Fin False 0)) (PyFloat (Fin False 1)) None 0)"
proof -
  have t: "resource_tokens (Some ''memory=1Gi'') = [''memory=1Gi'']" by code_simp
  have d: "fill_dict [] [''memory=1Gi''] = Inr [(''memory'', ''1Gi'')]" by code_simp
  have g: "scan_gpu [(''memory'', ''1Gi'')] (None, 0) = Inr (None, 0)" by code_simp
  show ?thesis
    by (simp add: parse_Some t d g dict_get_def but_last2_def py_float_samples
        del: scan_gpu.simps fill_dict.simps)
qed


lemma eval_cpu_minus_1:
  "resource_str_to_node_resource (Some ''cpu=-1'') =
     Inr (NodeResource_init (PyFloat (Fin True 1)) (PyFloat (Fin False 0)) None 0)"
proof -
  have t: "resource_tokens (Some ''cpu=-1'') = [''cpu=-1'']" by code_simp
  have d: "fill_dict [] [''cpu=-1''] = Inr [(''cpu'', ''-1'')]" by code_simp
  have g: "scan_gpu [(''cpu'', ''-1'')] (None, 0) = Inr (None, 0)" by code_simp
  show ?thesis
    by (simp add: parse_Some t d g dict_get_def but_last2_def py_float_samples
        del: scan_gpu.simps fill_dict.simps)
qed

lemma eval_cpu_1:
  "resource_str_to_node_resource (Some ''cpu=1'') =
     Inr (NodeResource_init (PyFloat (Fin False 1)) (PyFloat (Fin False 0)) None 0)"
proof -
  have t: "resource_tokens (Some ''cpu=1'') = [''cpu=1'']" by code_simp
  have d: "fill_dict [] [''cpu=1''] = Inr [(''cpu'', ''1'')]" by code_simp
  have g: "scan_gpu [(''cpu'', ''1'')] (None, 0) = Inr (None, 0)" by code_simp
  show ?thesis
    by (simp add: parse_Some t d g dict_get_def but_last2_def py_float_samples
        del: scan_gpu.simps fill_dict.simps)
qed

lemma eval_repeated_gpu_key:
  "resource_str_to_node_resource (Some ''nvidia.com/a=1,nvidia.com/b=2,nvidia.com/a=3'') =
     Inr (NodeResource_init (PyFloat (Fin False 0)) (PyFloat (Fin False 0))
            (Some ''nvidia.com/b'') 2)"
proof -
  have t: "resource_tokens (Some ''nvidia.com/a=1,nvidia.com/b=2,nvidia.com/a=3'') =
      [''nvidia.com/a=1'', ''nvidia.com/b=2'', ''nvidia.com/a=3'']" by code_simp
  have d: "fill_dict [] [''nvidia.com/a=1'', ''nvidia.com/b=2'', ''nvidia.com/a=3''] =
      Inr [(''nvidia.com/a'', ''3''), (''nvidia.com/b'', ''2'')]" by code_simp
  have g: "scan_gpu [(''nvidia.com/a'', ''3''), (''nvidia.com/b'', ''2'')] (None, 0) =
      Inr (Some ''nvidia.com/b'', 2)" by code_simp
  show ?thesis
    by (simp add: parse_Some t d g dict_get_def but_last2_def py_float_samples
        del: scan_gpu.simps fill_dict.simps)
qed

lemma eval_cpu_gpu:
  "resource_str_to_node_resource (Some ''cpu=1,nvidia.com/gpu=2'') =
     Inr (NodeResource_init (PyFloat (Fin False 1)) (PyFloat (Fin False 0))
            (Some ''nvidia.com/gpu'') 2)"
proof -
  have t: "resource_tokens (Some ''cpu=1,nvidia.com/gpu=2'') = [''cpu=1'', ''nvidia.com/gpu=2'']"
    by code_simp
  have d: "fill_dict [] [''cpu=1'', ''nvidia.com/gpu=2''] =
      Inr [(''cpu'', ''1''), (''nvidia.com/gpu'', ''2'')]" by code_simp
  have g: "scan_gpu [(''cpu'', ''1''), (''nvidia.com/gpu'', ''2'')] (None, 0) =
      Inr (Some ''nvidia.com/gpu'', 2)" by code_simp
  show ?thesis
    by (simp add: parse_Some t d g dict_get_def but_last2_def py_float_samples
        del: scan_gpu.simps fill_dict.simps)
qed

lemma token_samples:
  "resource_tokens (Some ''cpu=1'') = [''cpu=1'']"
  "resource_tokens (Some ''cpu=1,nvidia.com/gpu=2'') = [''cpu=1'', ''nvidia.com/gpu=2'']"
  "resource_tokens (Some ''memory=abcMi'') = [''memory=abcMi'']"
  "resource_tokens (Some ''nvidia.com/a=1,nvidia.com/b=2,nvidia.com/a=3'') =
      [''nvidia.com/a=1'', ''nvidia.com/b=2'', ''nvidia.com/a=3'']"
  "resource_tokens None = []"
  "token_key ''cpu=1'' = ''cpu''" "token_value ''cpu=1'' = ''1''"
  "token_key ''nvidia.com/gpu=2'' = ''nvidia.com/gpu''" "token_value ''nvidia.com/gpu=2'' = ''2''"
  "token_key ''memory=abcMi'' = ''memory''" "token_value ''memory=abcMi'' = ''abcMi''"
  "token_key ''nvidia.com/a=1'' = ''nvidia.com/a''"
  "token_key ''nvidia.com/b=2'' = ''nvidia.com/b''"
  "token_key ''nvidia.com/a=3'' = ''nvidia.com/a''"
  by code_simp+


section \<open>Properties of \<open>resource_str_to_node_resource\<close>\<close>





text \<open>
  C5, as the code has it. \<^verbatim>\<open>resource_str_to_node_resource\<close> drops the last two
  characters of the memory text and converts the rest with \<^verbatim>\<open>float\<close>: for
  \<^verbatim>\<open>"memory=1Gi"\<close> the memory is 1.0, not 1024; \<^verbatim>\<open>convert_memory_to_mb\<close>
  on the same text gives 1024.
\<close>

theorem parse_memory_unit_dropped:
  "resource_str_to_node_resource (Some ''memory=1Gi'') =
     Inr (NodeResource_init (PyFloat (Fin False 0)) (PyFloat (Fin False 1)) None 0)
   \<and> convert_memory_to_mb ''1Gi'' = Inr 1024"
proof -
  have "convert_memory_to_mb ''1Gi'' = Inr 1024" by code_simp
  then show ?thesis by (simp add: eval_memory_1Gi)
qed


text \<open>
  C8, as the code has it. Neither the constructor nor the parser checks a value:
  \<^verbatim>\<open>"cpu=-1"\<close> parses to a cpu of -1.0, and the constructor accepts a positive
  accelerator count without a type.
\<close>

theorem resource_invariant_counterexample:
  "resource_str_to_node_resource (Some ''cpu=-1'') =
     Inr (NodeResource_init (PyFloat (Fin True 1)) (PyFloat (Fin False 0)) None 0)
   \<and> \<not> resource_invariant (NodeResource_init (PyFloat (Fin True 1)) (PyFloat (Fin False 0)) None 0)
   \<and> \<not> resource_invariant (NodeResource_init (PyInt 4) (PyInt 1024) None 1)"
  by (simp add: eval_cpu_minus_1 resource_invariant_def NodeResource_init_def py_ge_def)

text \<open>
  C8, amended. The constructor stores its arguments unchecked, so the instance
  satisfies the invariant exactly when the arguments do. A parsed resource
  always satisfies the accelerator clause (a count other than 0 comes with a
  non-empty type that contains \<^verbatim>\<open>nvidia.com\<close>), so that it satisfies the
  invariant exactly when its cpu, memory and count are not negative; the
  resource for an absent or empty string satisfies it.
\<close>

theorem resource_invariant_unchecked:
  "(resource_invariant (NodeResource_init c m t n) \<longleftrightarrow>
      py_ge c (PyInt 0) \<and> py_ge m (PyInt 0) \<and> 0 \<le> n
      \<and> (0 < n \<longrightarrow> (case t of None \<Rightarrow> False | Some k \<Rightarrow> k \<noteq> [])))
   \<and> (resource_str_to_node_resource rs = Inr r \<longrightarrow>
        (gpu_num r \<noteq> 0 \<longrightarrow>
           (case gpu_type r of None \<Rightarrow> False | Some k \<Rightarrow> k \<noteq> [] \<and> contains ''nvidia.com'' k))
        \<and> (resource_invariant r \<longleftrightarrow>
             py_ge (cpu r) (PyInt 0) \<and> py_ge (memory r) (PyInt 0) \<and> 0 \<le> gpu_num r)
        \<and> (resource_tokens rs = [] \<longrightarrow> resource_invariant r))"
proof -
  have 1: "resource_invariant (NodeResource_init c m t n) \<longleftrightarrow>
      py_ge c (PyInt 0) \<and> py_ge m (PyInt 0) \<and> 0 \<le> n
      \<and> (0 < n \<longrightarrow> (case t of None \<Rightarrow> False | Some k \<Rightarrow> k \<noteq> []))"
    by (simp add: resource_invariant_def NodeResource_init_def)
  have 2: "(gpu_num r \<noteq> 0 \<longrightarrow>
           (case gpu_type r of None \<Rightarrow> False | Some k \<Rightarrow> k \<noteq> [] \<and> contains ''nvidia.com'' k))
        \<and> (resource_invariant r \<longleftrightarrow>
             py_ge (cpu r) (PyInt 0) \<and> py_ge (memory r) (PyInt 0) \<and> 0 \<le> gpu_num r)
        \<and> (resource_tokens rs = [] \<longrightarrow> resource_invariant r)"
    if p: "resource_str_to_node_resource rs = Inr r"
  proof -
    define gks where
      "gks = filter (contains ''nvidia.com'') (first_occurrences (map token_key (resource_tokens rs)))"
    have k: "contains ''nvidia.com'' (last gks)" if "gks \<noteq> []"
      using last_in_set [OF that] by (simp add: gks_def)
    have a: "gpu_num r \<noteq> 0 \<longrightarrow>
           (case gpu_type r of None \<Rightarrow> False | Some k \<Rightarrow> k \<noteq> [] \<and> contains ''nvidia.com'' k)"
      using parse_gpu [OF p, folded gks_def] k contains_nonempty [of "last gks"]
      by (auto split: if_splits)
    then have b: "resource_invariant r \<longleftrightarrow>
             py_ge (cpu r) (PyInt 0) \<and> py_ge (memory r) (PyInt 0) \<and> 0 \<le> gpu_num r"
      by (auto simp: resource_invariant_def split: option.splits)
    have c: "resource_invariant r" if "resource_tokens rs = []"
    proof -
      from that have "rs = None \<or> rs = Some []"
        using resource_tokens_nonempty [of rs] by (cases rs) auto
      then show ?thesis using p
        by (auto simp: parse_None resource_invariant_def NodeResource_init_def py_ge_def)
    qed
    from a b c show ?thesis by blast
  qed
  from 1 2 show ?thesis by blast
qed

theorem resource_invariant_unchecked_witness:
  "resource_str_to_node_resource (Some ''cpu=1,nvidia.com/gpu=2'') =
     Inr (NodeResource_init (PyFloat (Fin False 1)) (PyFloat (Fin False 0)) (Some ''nvidia.com/gpu'') 2)
   \<and> gpu_num (NodeResource_init (PyFloat (Fin False 1)) (PyFloat (Fin False 0))
        (Some ''nvidia.com/gpu'') 2) \<noteq> 0
   \<and> resource_invariant (NodeResource_init (PyFloat (Fin False 1)) (PyFloat (Fin False 0))
        (Some ''nvidia.com/gpu'') 2)
   \<and> resource_tokens None = []
   \<and> resource_invariant (NodeResource_init (PyInt 0) (PyInt 0) None 0)"
  using resource_invariant_unchecked [of "PyFloat (Fin False 1)" "PyFloat (Fin False 0)"
        "Some ''nvidia.com/gpu''" 2 "Some ''cpu=1,nvidia.com/gpu=2''"
        "NodeResource_init (PyFloat (Fin False 1)) (PyFloat (Fin False 0)) (Some ''nvidia.com/gpu'') 2"]
    resource_invariant_unchecked [of "PyInt 0" "PyInt 0" None 0 None
        "NodeResource_init (PyInt 0) (PyInt 0) None 0"]
  by (simp add: eval_cpu_gpu parse_None token_samples NodeResource_init_def py_ge_def)


text \<open>
  C10, as the code has it. With a repeated accelerator key the last such key in
  token order does not decide: the dictionary keeps a key at the place of its
  first occurrence, so \<^verbatim>\<open>nvidia.com/b\<close> is visited last.
\<close>

theorem gpu_key_selection_counterexample:
  "resource_str_to_node_resource (Some ''nvidia.com/a=1,nvidia.com/b=2,nvidia.com/a=3'') =
     Inr (NodeResource_init (PyFloat (Fin False 0)) (PyFloat (Fin False 0))
            (Some ''nvidia.com/b'') 2)
   \<and> last (filter (\<lambda>t. contains ''nvidia.com'' (token_key t))
        (resource_tokens (Some ''nvidia.com/a=1,nvidia.com/b=2,nvidia.com/a=3'')))
       = ''nvidia.com/a=3''"
  by (simp add: eval_repeated_gpu_key token_samples)


text \<open>
  C10, amended. A key is an accelerator key only when it contains
  \<^verbatim>\<open>nvidia.com\<close>: when no key of the input does, the result has no
  accelerator type and the count 0. When some do, the type is the last such key
  among the distinct keys in the order of their first occurrence, and the count
  is the value of the last token with that key; when no key is repeated, that is
  the key and the value of the last such token.
\<close>

theorem gpu_key_selection:
  assumes "resource_str_to_node_resource rs = Inr r"
  shows "((\<forall>t \<in> set (resource_tokens rs). \<not> contains ''nvidia.com'' (token_key t))
            \<longrightarrow> gpu_type r = None \<and> gpu_num r = 0)
       \<and> ((\<exists>t \<in> set (resource_tokens rs). contains ''nvidia.com'' (token_key t)) \<longrightarrow>
            (let k = last (filter (contains ''nvidia.com'')
                       (first_occurrences (map token_key (resource_tokens rs))))
             in gpu_type r = Some k \<and> py_int (last_value (resource_tokens rs) k) = Inr (gpu_num r)))
       \<and> ((\<exists>t \<in> set (resource_tokens rs). contains ''nvidia.com'' (token_key t))
            \<and> distinct (map token_key (resource_tokens rs)) \<longrightarrow>
            (let t = last (filter (\<lambda>t. contains ''nvidia.com'' (token_key t)) (resource_tokens rs))
             in gpu_type r = Some (token_key t) \<and> py_int (token_value t) = Inr (gpu_num r)))"
proof -
  define toks where "toks = resource_tokens rs"
  define gks where "gks = filter (contains ''nvidia.com'') (first_occurrences (map token_key toks))"
  have e: "gks = [] \<longleftrightarrow> (\<forall>t \<in> set toks. \<not> contains ''nvidia.com'' (token_key t))"
    by (auto simp: gks_def filter_empty_conv set_first_occurrences)
  note p = parse_gpu [OF assms, folded toks_def, folded gks_def]
  have 1: "(\<forall>t \<in> set toks. \<not> contains ''nvidia.com'' (token_key t))
            \<longrightarrow> gpu_type r = None \<and> gpu_num r = 0"
    using p e by auto
  have 2: "gpu_type r = Some (last gks) \<and> py_int (last_value toks (last gks)) = Inr (gpu_num r)"
    if "\<exists>t \<in> set toks. contains ''nvidia.com'' (token_key t)"
    using p e that by auto
  have 3: "gpu_type r = Some (token_key (last (filter (\<lambda>t. contains ''nvidia.com'' (token_key t)) toks)))
        \<and> py_int (token_value (last (filter (\<lambda>t. contains ''nvidia.com'' (token_key t)) toks)))
            = Inr (gpu_num r)"
    if x: "\<exists>t \<in> set toks. contains ''nvidia.com'' (token_key t)"
      and d: "distinct (map token_key toks)"
  proof -
    define g where "g = filter (\<lambda>t. contains ''nvidia.com'' (token_key t)) toks"
    have ne: "g \<noteq> []" using x by (auto simp: g_def filter_empty_conv)
    have "gks = map token_key g"
      by (simp add: gks_def g_def first_occurrences_distinct [OF d] filter_map o_def)
    then have l: "last gks = token_key (last g)" using ne by (simp add: last_map)
    have "last g \<in> set toks" using ne last_in_set [of g] by (auto simp: g_def)
    then have "last_value toks (token_key (last g)) = token_value (last g)"
      by (rule last_value_distinct [OF d])
    with 2 [OF x] l show ?thesis by (simp add: g_def)
  qed
  from 1 2 3 show ?thesis unfolding toks_def gks_def Let_def by blast
qed

theorem gpu_key_selection_witness:
  "resource_str_to_node_resource (Some ''cpu=1'') =
     Inr (NodeResource_init (PyFloat (Fin False 1)) (PyFloat (Fin False 0)) None 0)
   \<and> filter (\<lambda>t. contains ''nvidia.com'' (token_key t)) (resource_tokens (Some ''cpu=1'')) = []
   \<and> resource_str_to_node_resource (Some ''cpu=1,nvidia.com/gpu=2'') =
     Inr (NodeResource_init (PyFloat (Fin False 1)) (PyFloat (Fin False 0)) (Some ''nvidia.com/gpu'') 2)
   \<and> (\<exists>t \<in> set (resource_tokens (Some ''cpu=1,nvidia.com/gpu=2'')).
         contains ''nvidia.com'' (token_key t))
   \<and> distinct (map token_key (resource_tokens (Some ''cpu=1,nvidia.com/gpu=2'')))
   \<and> py_int (token_value (last (filter (\<lambda>t. contains ''nvidia.com'' (token_key t))
        (resource_tokens (Some ''cpu=1,nvidia.com/gpu=2''))))) = Inr 2"
  using gpu_key_selection [OF eval_cpu_1] gpu_key_selection [OF eval_cpu_gpu]
  by (simp add: eval_cpu_1 eval_cpu_gpu token_samples NodeResource_init_def)

end
